theory Spec2Isabelle
  imports Complex_Main "HOL-Library.AList"
begin

section \<open>JavaScript objects as insertion-ordered tables\<close>

text \<open>
  The Provider keeps three plain objects keyed by dialog identity. Identities are the
  strings returned by \<^verbatim>\<open>cuid()\<close> (line 230), so they are never array indices:
  \<^verbatim>\<open>Object.entries\<close> lists them in insertion order, and
  \<^verbatim>\<open>{ ...obj, [key]: value }\<close> keeps the position of a key that is already present
  and appends a new key at the end. An association list with distinct keys has exactly
  this behaviour; reading a missing key gives \<^verbatim>\<open>undefined\<close>, here \<open>None\<close>.
\<close>

type_synonym key = string

type_synonym 'v obj = "(key \<times> 'v) list"

definition obj_get :: "'v obj \<Rightarrow> key \<Rightarrow> 'v option" where
  "obj_get obj k = map_of obj k"

definition obj_set :: "key \<Rightarrow> 'v \<Rightarrow> 'v obj \<Rightarrow> 'v obj" where
  "obj_set k v obj = AList.update k v obj"

definition obj_keys :: "'v obj \<Rightarrow> key list" where
  "obj_keys obj = map fst obj"

section \<open>The dialog registry held by \<^verbatim>\<open>ReModalProvider\<close>\<close>

text \<open>
  Callbacks, rendered elements, style functions and styles are opaque to the library;
  they are represented by tokens. An invoked callback leaves an event in a trace, tagged
  with the prop it was read from (\<^verbatim>\<open>view.onCancel()\<close> on line 181, the two
  \<^verbatim>\<open>call\<close> nodes on lines 53 and 54); so does the assignment to the visibility table,
  so that the order of the two inside \<^verbatim>\<open>setVisible\<close> can be read off the trace.
\<close>

type_synonym callback = nat
type_synonym element = nat
type_synonym style_fn = nat
type_synonym view_style = nat

datatype event =
    OnCancel callback
  | AssignVisible key bool
  | OnModalShow callback
  | OnModalHide callback

text \<open>
  \<^verbatim>\<open>Partial<IReModalProps>\<close> without \<^verbatim>\<open>children\<close> and \<^verbatim>\<open>isVisible\<close>: what
  \<^verbatim>\<open>setConfig\<close> stores (line 242). Every field may be missing.
\<close>

record config =
  onCancel :: "callback option"
  autoCloseWhenOpeningNextDialog :: "bool option"
  modalAnimationFunction :: "style_fn option"
  onModalShow :: "callback option"
  onModalHide :: "callback option"
  containerStyle :: "view_style option"
  keyboardAvoiding :: "bool option"
  keyboardVerticalOffset :: "real option"

definition empty_config :: config where
  "empty_config = \<lparr> onCancel = None, autoCloseWhenOpeningNextDialog = None,
     modalAnimationFunction = None, onModalShow = None, onModalHide = None,
     containerStyle = None, keyboardAvoiding = None, keyboardVerticalOffset = None \<rparr>"

text \<open>
  Lines 148--150: \<^verbatim>\<open>views\<close> is React state (a change re-renders the Provider),
  \<^verbatim>\<open>visibleView\<close> and \<^verbatim>\<open>configs\<close> are refs (a change re-renders nothing).
\<close>

record provider =
  views :: "element option obj"
  visibleView :: "bool obj"
  configs :: "config obj"

definition initial_provider :: provider where
  "initial_provider = \<lparr> views = [], visibleView = [], configs = [] \<rparr>"

text \<open>
  Line 152, evaluated while the Provider renders: the first entry of
  \<^verbatim>\<open>visibleView.current\<close> whose value is true, or \<^verbatim>\<open>undefined\<close>.
\<close>

definition currentView :: "provider \<Rightarrow> key option" where
  "currentView p = map_option fst (find snd (visibleView p))"

text \<open>
  Line 153: \<^verbatim>\<open>(key && configs.current[key]) || {}\<close>. The empty string is falsy, as
  \<^verbatim>\<open>undefined\<close> is; \<^verbatim>\<open>configs.current\<close> is read when the function is called.
\<close>

definition selectedView :: "provider \<Rightarrow> key option \<Rightarrow> config" where
  "selectedView p key =
     (case key of
        None \<Rightarrow> empty_config
      | Some k \<Rightarrow>
          if k = [] then empty_config
          else (case obj_get (configs p) k of None \<Rightarrow> empty_config | Some c \<Rightarrow> c))"

text \<open>Lines 171--173.\<close>

definition setView :: "key \<Rightarrow> element option \<Rightarrow> provider \<Rightarrow> provider" where
  "setView key view p = p\<lparr> views := obj_set key view (views p) \<rparr>"

text \<open>Lines 174--176.\<close>

definition setConfig :: "key \<Rightarrow> config \<Rightarrow> provider \<Rightarrow> provider" where
  "setConfig key c p = p\<lparr> configs := obj_set key c (configs p) \<rparr>"

text \<open>
  Lines 177--185. The closure uses the \<^verbatim>\<open>currentView\<close> of the Provider render that
  created it; that captured value is the first argument.
\<close>

definition setVisible :: "key option \<Rightarrow> key \<Rightarrow> bool \<Rightarrow> provider \<Rightarrow> event list \<times> provider" where
  "setVisible cur key visible p =
     (let view = selectedView p cur;
          called =
            (if visible then
               (case onCancel view of
                  None \<Rightarrow> []
                | Some f \<Rightarrow>
                    if autoCloseWhenOpeningNextDialog view = Some True then [OnCancel f] else [])
             else [])
      in (called @ [AssignVisible key visible],
          p\<lparr> visibleView := obj_set key visible (visibleView p) \<rparr>))"


section \<open>The declaration component \<^verbatim>\<open>ReModal\<close>\<close>

text \<open>The props of \<^verbatim>\<open>ReModal\<close> (lines 205--220).\<close>

record remodal_props =
  rp_children :: element
  rp_isVisible :: bool
  rp_onCancel :: "callback option"
  rp_autoCloseWhenOpeningNextDialog :: "bool option"
  rp_modalAnimationFunction :: "style_fn option"
  rp_onModalShow :: "callback option"
  rp_onModalHide :: "callback option"
  rp_containerStyle :: "view_style option"
  rp_keyboardAvoiding :: "bool option"
  rp_keyboardVerticalOffset :: "real option"

definition defaultModalAnimationStyle :: style_fn where
  "defaultModalAnimationStyle = 0"

text \<open>
  The object passed to \<^verbatim>\<open>setConfig\<close> on line 242, with the defaults of lines 225
  and 226 applied.
\<close>

definition ReModal_config :: "remodal_props \<Rightarrow> config" where
  "ReModal_config props =
     \<lparr> onCancel = rp_onCancel props,
       autoCloseWhenOpeningNextDialog =
         Some (case rp_autoCloseWhenOpeningNextDialog props of None \<Rightarrow> True | Some b \<Rightarrow> b),
       modalAnimationFunction =
         Some (case rp_modalAnimationFunction props of
                 None \<Rightarrow> defaultModalAnimationStyle | Some f \<Rightarrow> f),
       onModalShow = rp_onModalShow props,
       onModalHide = rp_onModalHide props,
       containerStyle = rp_containerStyle props,
       keyboardAvoiding = rp_keyboardAvoiding props,
       keyboardVerticalOffset = rp_keyboardVerticalOffset props \<rparr>"

text \<open>
  What \<^verbatim>\<open>useContext(ReModalContext)\<close> returns: the default value \<^verbatim>\<open>{}\<close> of line 12
  when no Provider encloses the declaration, otherwise the three closures of a Provider
  render, which share that render's \<^verbatim>\<open>currentView\<close>.
\<close>

datatype remodal_context = DefaultContext | ProviderContext "key option"

text \<open>The error thrown on line 233.\<close>

datatype error = PlacedOutsideProvider

text \<open>
  Mounting a declaration with identity \<open>id\<close>: the render throws when
  \<^verbatim>\<open>setView\<close> is missing (line 232); otherwise the three effects run in the order
  they are declared (lines 237, 242, 247).
\<close>

definition ReModal_mount ::
  "remodal_context \<Rightarrow> key \<Rightarrow> remodal_props \<Rightarrow> provider \<Rightarrow> error + (event list \<times> provider)" where
  "ReModal_mount ctx ident props p =
     (case ctx of
        DefaultContext \<Rightarrow> Inl PlacedOutsideProvider
      | ProviderContext cur \<Rightarrow>
          (let r = setVisible cur ident (rp_isVisible props) p;
               p2 = setConfig ident (ReModal_config props) (snd r);
               p3 = setView ident (Some (rp_children props)) p2
           in Inr (fst r, p3)))"

text \<open>
  Unmounting runs the clean-up functions of lines 238 and 248, in that order; the
  configuration effect has none.
\<close>

definition ReModal_unmount :: "key option \<Rightarrow> key \<Rightarrow> provider \<Rightarrow> event list \<times> provider" where
  "ReModal_unmount cur ident p =
     (let r = setVisible cur ident False p
      in (fst r, setView ident None (snd r)))"

section \<open>The transition engine \<^verbatim>\<open>runOpacityTimer\<close>\<close>

text \<open>The enum of lines 16--19 as the numbers it compiles to.\<close>

abbreviation (input) BEGAN :: real where "BEGAN \<equiv> 0"
abbreviation (input) END :: real where "END \<equiv> 1"

datatype platform = Ios | Android | OtherPlatform

record anim_state =
  finished :: real
  position :: real
  time :: real
  frameTime :: real

record anim_config =
  duration :: real
  toValue :: real

text \<open>
  \<^verbatim>\<open>timing(clock, state, config)\<close> is a node of react-native-reanimated, not of this
  repository. It reads the clock, the four state values and the configuration, and
  writes the state values; it is a parameter of the model.
\<close>

type_synonym timing = "real \<Rightarrow> anim_state \<Rightarrow> anim_config \<Rightarrow> anim_state"

record engine =
  clockRunning :: bool
  anim :: anim_state
  conf :: anim_config

text \<open>Lines 22--34.\<close>

definition new_engine :: "platform \<Rightarrow> engine" where
  "new_engine os =
     \<lparr> clockRunning = False,
       anim = \<lparr> finished = 0, position = 0, time = 0, frameTime = 0 \<rparr>,
       conf = \<lparr> duration = (if os = Ios then 300 else 240), toValue = - 1 \<rparr> \<rparr>"

text \<open>The five statements of lines 38--42 and 45--49, for target \<open>v\<close>.\<close>

definition start_run :: "real \<Rightarrow> engine \<Rightarrow> engine" where
  "start_run v e =
     e\<lparr> anim := (anim e)\<lparr> finished := 0, time := 0, frameTime := 0 \<rparr>,
        conf := (conf e)\<lparr> toValue := v \<rparr>,
        clockRunning := True \<rparr>"

text \<open>Lines 37--50: the two guarded blocks, in order.\<close>

definition signal_phase :: "real \<Rightarrow> engine \<Rightarrow> engine" where
  "signal_phase gestureState e =
     (let e1 = (if gestureState = BEGAN \<and> toValue (conf e) \<noteq> 1 then start_run 1 e else e)
      in if gestureState = END \<and> toValue (conf e1) \<noteq> 0 then start_run 0 e1 else e1)"

text \<open>Line 51.\<close>

definition timing_phase :: "timing \<Rightarrow> real \<Rightarrow> engine \<Rightarrow> engine" where
  "timing_phase tm now e = e\<lparr> anim := tm now (anim e) (conf e) \<rparr>"

text \<open>Line 52.\<close>

definition stop_phase :: "engine \<Rightarrow> engine" where
  "stop_phase e = (if finished (anim e) \<noteq> 0 then e\<lparr> clockRunning := False \<rparr> else e)"

text \<open>Lines 53 and 54.\<close>

definition completion_calls ::
  "callback option \<Rightarrow> callback option \<Rightarrow> real \<Rightarrow> engine \<Rightarrow> event list" where
  "completion_calls onShow onHide gestureState e =
     (case onShow of
        None \<Rightarrow> []
      | Some f \<Rightarrow> if finished (anim e) \<noteq> 0 \<and> gestureState = BEGAN then [OnModalShow f] else [])
     @ (case onHide of
          None \<Rightarrow> []
        | Some g \<Rightarrow> if finished (anim e) \<noteq> 0 \<and> gestureState = END then [OnModalHide g] else [])"

text \<open>
  Lines 55--59: the value of the block, the position clamped to the interval from 0 to 1.
\<close>

definition progress :: "engine \<Rightarrow> real" where
  "progress e =
     (let x = position (anim e)
      in if x < 0 then 0 else if 1 < x then 1 else x)"

text \<open>
  One evaluation of the block of lines 36--60, with the clock reading \<open>now\<close> and the
  signal \<open>gestureState\<close>. The value of the block is \<open>progress\<close> of the engine returned.
\<close>

definition runOpacityTimer ::
  "timing \<Rightarrow> callback option \<Rightarrow> callback option \<Rightarrow> real \<Rightarrow> real \<Rightarrow> engine
     \<Rightarrow> event list \<times> engine" where
  "runOpacityTimer tm onShow onHide now gestureState e =
     (let e' = stop_phase (timing_phase tm now (signal_phase gestureState e))
      in (completion_calls onShow onHide gestureState e', e'))"

section \<open>The renderer component \<^verbatim>\<open>Modal\<close>\<close>

text \<open>
  The refs of lines 109, 110 and 112 and the prop the effect of line 114 depends on. The
  block is built once, by the first render, so it keeps the callbacks of that render.
  The layout values and the style of lines 108 and 111 do not enter the block.
\<close>

record modal =
  isVisible :: "bool option"
  animationState :: real
  init :: bool
  opacity :: engine
  showCallback :: "callback option"
  hideCallback :: "callback option"

text \<open>
  The effect of lines 115--118. The block reads two things that change, the signal and
  its clock. Assigning the signal makes the library evaluate the block once, at the
  clock reading \<open>now\<close>.
\<close>

definition Modal_effect :: "timing \<Rightarrow> real \<Rightarrow> modal \<Rightarrow> event list \<times> modal" where
  "Modal_effect tm now m =
     (if init m then
        (let gs = (if isVisible m = Some True then BEGAN else END);
             r = runOpacityTimer tm (showCallback m) (hideCallback m) now gs (opacity m)
         in (fst r, m\<lparr> animationState := gs, opacity := snd r, init := True \<rparr>))
      else ([], m\<lparr> init := True \<rparr>))"

text \<open>The first render, followed by the first run of the effect.\<close>

definition Modal_mount ::
  "platform \<Rightarrow> timing \<Rightarrow> real \<Rightarrow> bool option \<Rightarrow> callback option \<Rightarrow> callback option
     \<Rightarrow> event list \<times> modal" where
  "Modal_mount os tm now visible onShow onHide =
     Modal_effect tm now
       \<lparr> isVisible = visible, animationState = - 1, init = False, opacity = new_engine os,
         showCallback = onShow, hideCallback = onHide \<rparr>"

text \<open>
  A later render: the effect runs again only when \<^verbatim>\<open>isVisible\<close> differs from the value
  of the previous render (the dependency list of line 119).
\<close>

definition Modal_render :: "timing \<Rightarrow> real \<Rightarrow> bool option \<Rightarrow> modal \<Rightarrow> event list \<times> modal" where
  "Modal_render tm now visible m =
     (if visible = isVisible m then ([], m)
      else Modal_effect tm now (m\<lparr> isVisible := visible \<rparr>))"

text \<open>
  A frame of the host's animation scheduler: a running clock ticks and the block is
  evaluated, a stopped clock leaves the block alone. This is what \<^verbatim>\<open>startClock\<close> and
  \<^verbatim>\<open>stopClock\<close> switch.
\<close>

definition Modal_frame :: "timing \<Rightarrow> real \<Rightarrow> modal \<Rightarrow> event list \<times> modal" where
  "Modal_frame tm now m =
     (if clockRunning (opacity m) then
        (let r = runOpacityTimer tm (showCallback m) (hideCallback m) now
                   (animationState m) (opacity m)
         in (fst r, m\<lparr> opacity := snd r \<rparr>))
      else ([], m))"

text \<open>Line 127.\<close>

datatype pointer_events = Auto | NoPointerEvents

definition pointerEvents :: "modal \<Rightarrow> pointer_events" where
  "pointerEvents m = (if isVisible m = Some True then Auto else NoPointerEvents)"

text \<open>A history of a mounted renderer: renders and frames, each at a clock reading.\<close>

datatype step = Render "bool option" | Frame

definition Modal_step :: "timing \<Rightarrow> real \<times> step \<Rightarrow> modal \<Rightarrow> event list \<times> modal" where
  "Modal_step tm s m =
     (case snd s of
        Render visible \<Rightarrow> Modal_render tm (fst s) visible m
      | Frame \<Rightarrow> Modal_frame tm (fst s) m)"

fun Modal_run :: "timing \<Rightarrow> (real \<times> step) list \<Rightarrow> modal \<Rightarrow> event list \<times> modal" where
  "Modal_run tm [] m = ([], m)"
| "Modal_run tm (s # ss) m =
     (let r = Modal_step tm s m;
          r' = Modal_run tm ss (snd r)
      in (fst r @ fst r', snd r'))"

text \<open>Frames at the given clock readings, with no render in between.\<close>

definition frames :: "real list \<Rightarrow> (real \<times> step) list" where
  "frames ts = map (\<lambda>t. (t, Frame)) ts"

text \<open>The \<^verbatim>\<open>isVisible\<close> of the last render of a history, or of the mount if there is none.\<close>

fun delivered :: "bool option \<Rightarrow> (real \<times> step) list \<Rightarrow> bool option" where
  "delivered v [] = v"
| "delivered v (s # ss) = delivered (case snd s of Render v' \<Rightarrow> v' | Frame \<Rightarrow> v) ss"

text \<open>Some render of the history carried a value other than \<open>v\<close>.\<close>

definition changed :: "bool option \<Rightarrow> (real \<times> step) list \<Rightarrow> bool" where
  "changed v steps \<longleftrightarrow> list_ex (\<lambda>s. case snd s of Render v' \<Rightarrow> v' \<noteq> v | Frame \<Rightarrow> False) steps"

section \<open>What the Provider renders\<close>

text \<open>
  Lines 189--200: one \<^verbatim>\<open>Modal\<close> per entry of \<^verbatim>\<open>views\<close>, keyed by the identity, with
  the stored configuration spread into its props.
\<close>

record modal_props =
  mp_children :: "element option"
  mp_isVisible :: "bool option"
  mp_viewStyleFnc :: style_fn
  mp_onCancel :: "callback option"
  mp_autoCloseWhenOpeningNextDialog :: "bool option"
  mp_onModalShow :: "callback option"
  mp_onModalHide :: "callback option"
  mp_containerStyle :: "view_style option"
  mp_keyboardAvoiding :: "bool option"
  mp_keyboardVerticalOffset :: "real option"

definition ReModalProvider_render :: "provider \<Rightarrow> (key \<times> modal_props) list" where
  "ReModalProvider_render p =
     map (\<lambda>kv.
            (let c = selectedView p (Some (fst kv))
             in (fst kv,
                 \<lparr> mp_children = snd kv,
                   mp_isVisible = obj_get (visibleView p) (fst kv),
                   mp_viewStyleFnc =
                     (case modalAnimationFunction c of
                        None \<Rightarrow> defaultModalAnimationStyle | Some f \<Rightarrow> f),
                   mp_onCancel = onCancel c,
                   mp_autoCloseWhenOpeningNextDialog = autoCloseWhenOpeningNextDialog c,
                   mp_onModalShow = onModalShow c,
                   mp_onModalHide = onModalHide c,
                   mp_containerStyle = containerStyle c,
                   mp_keyboardAvoiding = keyboardAvoiding c,
                   mp_keyboardVerticalOffset = keyboardVerticalOffset c \<rparr>)))
         (views p)"

section \<open>What is assumed of the timing node\<close>

text \<open>
  What the library's timing node is relied on for: when an evaluation raises the finished
  flag of a run, it has put the position on the target.
\<close>

definition reaches_target :: "timing \<Rightarrow> bool" where
  "reaches_target tm \<longleftrightarrow>
     (\<forall>now s c. finished s = 0 \<and> finished (tm now s c) \<noteq> 0 \<longrightarrow> position (tm now s c) = toValue c)"

text \<open>
  The bookkeeping of the library's timing node: it records the clock reading, adds the
  clock time that passed since the previous evaluation of the run to the frame time, and
  raises the finished flag once the frame time has reached the duration.
\<close>

definition accumulates :: "timing \<Rightarrow> bool" where
  "accumulates tm \<longleftrightarrow>
     (\<forall>now s c.
        time (tm now s c) = now
        \<and> frameTime (tm now s c) = frameTime s + (now - (if time s \<noteq> 0 then time s else now))
        \<and> (duration c \<le> frameTime (tm now s c) \<longrightarrow> finished (tm now s c) \<noteq> 0))"

section \<open>Reachable renderer states\<close>

text \<open>
  The engine already aims at the value the signal asks for, so neither guarded block of
  lines 37--50 fires.
\<close>

definition on_target :: "modal \<Rightarrow> bool" where
  "on_target m \<longleftrightarrow>
     (animationState m = BEGAN \<and> toValue (conf (opacity m)) = 1
      \<or> animationState m = END \<and> toValue (conf (opacity m)) = 0)"

text \<open>Everything of a renderer that a frame leaves alone.\<close>

definition same_refs :: "modal \<Rightarrow> modal \<Rightarrow> bool" where
  "same_refs m m' \<longleftrightarrow>
     isVisible m' = isVisible m \<and> animationState m' = animationState m \<and> init m' = init m
     \<and> showCallback m' = showCallback m \<and> hideCallback m' = hideCallback m
     \<and> conf (opacity m') = conf (opacity m)"

text \<open>The two kinds of reachable renderer states: never driven, and driven.\<close>

definition undriven :: "platform \<Rightarrow> modal \<Rightarrow> bool" where
  "undriven os m \<longleftrightarrow> init m \<and> animationState m = - 1 \<and> opacity m = new_engine os"

definition driven :: "modal \<Rightarrow> bool" where
  "driven m \<longleftrightarrow>
     init m
     \<and> (isVisible m = Some True \<and> animationState m = BEGAN \<and> toValue (conf (opacity m)) = 1
        \<or> isVisible m = Some False \<and> animationState m = END \<and> toValue (conf (opacity m)) = 0)
     \<and> (clockRunning (opacity m) \<longleftrightarrow> finished (anim (opacity m)) = 0)
     \<and> (\<not> clockRunning (opacity m) \<longrightarrow>
          position (anim (opacity m)) = toValue (conf (opacity m)))"

section \<open>Examples\<close>

text \<open>
  An instance of the \<open>timing\<close> parameter with linear easing: it accumulates the clock
  time that passed since the previous evaluation, moves the position along the line
  towards the target, and on reaching the duration sets the position to the target and
  raises the finished flag.
\<close>

definition linear_timing :: timing where
  "linear_timing now s c =
     (let lastTime = (if time s \<noteq> 0 then time s else now);
          newFrameTime = frameTime s + (now - lastTime)
      in if duration c \<le> newFrameTime then
           s\<lparr> finished := 1, position := toValue c, time := now, frameTime := newFrameTime \<rparr>
         else
           s\<lparr> position :=
                 position s
                 + (toValue c - position s) * (newFrameTime - frameTime s)
                     / (duration c - frameTime s),
              time := now, frameTime := newFrameTime \<rparr>)"

text \<open>
  Two dialogs: \<open>cA\<close> is visible and has a cancel handler, \<open>cB\<close> is hidden. The
  parameter is the auto-close flag of \<open>cA\<close>.
\<close>

definition example_config :: "bool \<Rightarrow> config" where
  "example_config auto = empty_config\<lparr> onCancel := Some 7, autoCloseWhenOpeningNextDialog := Some auto \<rparr>"

definition example_registry :: "bool \<Rightarrow> provider" where
  "example_registry auto =
     \<lparr> views = [(''cA'', Some 1), (''cB'', Some 2)],
       visibleView = [(''cA'', True), (''cB'', False)],
       configs = [(''cA'', example_config auto), (''cB'', empty_config)] \<rparr>"

text \<open>
  A declaration that mounts visible with all three callbacks, the registry after it has
  mounted into an empty Provider, and the registry after it has unmounted again.
\<close>

definition example_props :: remodal_props where
  "example_props =
     \<lparr> rp_children = 5, rp_isVisible = True, rp_onCancel = Some 7,
       rp_autoCloseWhenOpeningNextDialog = None, rp_modalAnimationFunction = None,
       rp_onModalShow = Some 8, rp_onModalHide = Some 9, rp_containerStyle = None,
       rp_keyboardAvoiding = None, rp_keyboardVerticalOffset = None \<rparr>"

definition example_mounted :: provider where
  "example_mounted =
     \<lparr> views = [(''c1'', Some 5)],
       visibleView = [(''c1'', True)],
       configs = [(''c1'', ReModal_config example_props)] \<rparr>"

definition example_unmounted :: provider where
  "example_unmounted =
     \<lparr> views = [(''c1'', None)],
       visibleView = [(''c1'', False)],
       configs = [(''c1'', ReModal_config example_props)] \<rparr>"



text \<open>
  Renderers on the platform with the 300 ms duration: one mounted hidden, one mounted
  visible, and one whose show transition has completed.
\<close>

definition example_modal :: modal where
  "example_modal = snd (Modal_mount Ios linear_timing 0 (Some False) (Some 8) (Some 9))"

definition example_visible_modal :: modal where
  "example_visible_modal = snd (Modal_mount Ios linear_timing 0 (Some True) (Some 8) (Some 9))"

definition example_shown :: modal where
  "example_shown =
     \<lparr> isVisible = Some True, animationState = BEGAN, init = True,
       opacity = \<lparr> clockRunning = False,
                   anim = \<lparr> finished = 1, position = 1, time = 316, frameTime = 300 \<rparr>,
                   conf = \<lparr> duration = 300, toValue = 1 \<rparr> \<rparr>,
       showCallback = Some 8, hideCallback = Some 9 \<rparr>"

section \<open>Facts about the tables\<close>

lemma obj_get_set: "obj_get (obj_set k v obj) k' = (if k' = k then Some v else obj_get obj k')"
  by (simp add: obj_get_def obj_set_def update_conv')

lemma obj_set_twice: "obj_set k v (obj_set k v' obj) = obj_set k v obj"
  by (simp add: obj_set_def)

lemma obj_keys_set:
  "obj_keys (obj_set k v obj) = (if k \<in> set (obj_keys obj) then obj_keys obj else obj_keys obj @ [k])"
  by (simp add: obj_keys_def obj_set_def update_keys)

section \<open>Registry properties\<close>


lemma setVisible_events:
  "fst (setVisible cur b v p) =
     (if v then
        (case onCancel (selectedView p cur) of
           None \<Rightarrow> []
         | Some f \<Rightarrow>
             if autoCloseWhenOpeningNextDialog (selectedView p cur) = Some True
             then [OnCancel f] else [])
      else [])
     @ [AssignVisible b v]"
  by (simp add: setVisible_def Let_def)

lemma setVisible_state:
  "snd (setVisible cur b v p) = p\<lparr> visibleView := obj_set b v (visibleView p) \<rparr>"
  by (simp add: setVisible_def Let_def)

lemma ReModal_mount_provider:
  "ReModal_mount (ProviderContext cur) k props p =
     Inr (fst (setVisible cur k (rp_isVisible props) p),
          setView k (Some (rp_children props))
            (setConfig k (ReModal_config props) (snd (setVisible cur k (rp_isVisible props) p))))"
  by (simp add: ReModal_mount_def Let_def)

lemma find_Some_member: "find P xs = Some x \<Longrightarrow> x \<in> set xs \<and> P x"
  by (induction xs) (auto split: if_splits)

lemma currentView_visible:
  assumes "currentView p = Some k"
  shows "(k, True) \<in> set (visibleView p)"
proof -
  from assms obtain kv where kv: "find snd (visibleView p) = Some kv" and k: "fst kv = k"
    by (auto simp: currentView_def)
  from find_Some_member [OF kv] have "kv \<in> set (visibleView p)" and "snd kv" by simp_all
  with k show ?thesis by (cases kv) simp
qed

text \<open>
  The closures of a Provider render keep that render's \<^verbatim>\<open>currentView\<close>; the visibility
  table is a ref, and assigning to it renders nothing. One created while no dialog was
  visible invokes no handler, whatever the visibility table holds when it is called.
\<close>

lemma setVisible_stale_closure:
  "fst (setVisible None b True p) = [AssignVisible b True]"
  by (simp add: setVisible_events selectedView_def empty_config_def)








text \<open>
  C8. \<^verbatim>\<open>setConfig(id, config)\<close> replaces the stored configuration of \<open>id\<close> wholesale:
  afterwards the table holds exactly the configuration of the latest call for \<open>id\<close>, an
  earlier call for the same \<open>id\<close> leaves no trace, and the configuration stored for
  every other identity, the contents and the visibilities are what they were before.
\<close>

theorem setConfig_replaces_wholesale:
  "obj_get (configs (setConfig k c p)) k = Some c
   \<and> setConfig k c (setConfig k c' p) = setConfig k c p
   \<and> (\<forall>k'. k' \<noteq> k \<longrightarrow> obj_get (configs (setConfig k c p)) k' = obj_get (configs p) k')
   \<and> views (setConfig k c p) = views p
   \<and> visibleView (setConfig k c p) = visibleView p"
  by (simp add: setConfig_def obj_get_set obj_set_twice)

text \<open>Replacing the configuration of \<open>cA\<close> leaves that of \<open>cB\<close> alone.\<close>

theorem setConfig_replaces_wholesale_witness:
  "obj_get (configs (setConfig ''cA'' empty_config (example_registry True))) ''cA'' = Some empty_config
   \<and> obj_get (configs (setConfig ''cA'' empty_config (example_registry True))) ''cB''
       = obj_get (configs (example_registry True)) ''cB''"
  using setConfig_replaces_wholesale [of "''cA''" empty_config "example_registry True"]
  by simp

section \<open>The declaration's life cycle\<close>

text \<open>
  C7. Mounting a declaration whose context is the default value fails with the error of
  line 233, before any effect has run. With a Provider's context the mount never fails,
  so the missing Provider is the only cause of an error. The three registry operations
  have no failing branch, for any identity: each stores the value it is given under the
  identity, and an identity the table does not know yet is appended as a new key.
\<close>

theorem missing_provider_is_the_only_error:
  "ReModal_mount DefaultContext k props p = Inl PlacedOutsideProvider
   \<and> (\<forall>cur. \<exists>evs p'. ReModal_mount (ProviderContext cur) k props p = Inr (evs, p'))
   \<and> (\<forall>e. ReModal_mount ctx k props p = Inl e \<longrightarrow> ctx = DefaultContext)
   \<and> obj_get (views (setView k v p)) k = Some v
   \<and> obj_get (configs (setConfig k c p)) k = Some c
   \<and> obj_get (visibleView (snd (setVisible cur k b p))) k = Some b
   \<and> (k \<notin> set (obj_keys (views p)) \<longrightarrow>
        obj_keys (views (setView k v p)) = obj_keys (views p) @ [k])
   \<and> (k \<notin> set (obj_keys (configs p)) \<longrightarrow>
        obj_keys (configs (setConfig k c p)) = obj_keys (configs p) @ [k])
   \<and> (k \<notin> set (obj_keys (visibleView p)) \<longrightarrow>
        obj_keys (visibleView (snd (setVisible cur k b p))) = obj_keys (visibleView p) @ [k])"
  by (cases ctx)
     (simp_all add: ReModal_mount_provider setView_def setConfig_def setVisible_state
        obj_get_set obj_keys_set, simp_all add: ReModal_mount_def)

text \<open>Mounting \<open>c1\<close> without and with a Provider, and the operations on an unknown identity.\<close>

theorem missing_provider_is_the_only_error_witness:
  "ReModal_mount DefaultContext ''c1'' example_props initial_provider = Inl PlacedOutsideProvider
   \<and> ReModal_mount (ProviderContext None) ''c1'' example_props initial_provider
       = Inr ([AssignVisible ''c1'' True], example_mounted)
   \<and> obj_keys (views (setView ''c1'' (Some 5) initial_provider)) = [''c1'']
   \<and> obj_keys (configs (setConfig ''c1'' empty_config initial_provider)) = [''c1'']
   \<and> obj_keys (visibleView (snd (setVisible None ''c1'' True initial_provider))) = [''c1'']"
proof -
  have m: "ReModal_mount (ProviderContext None) ''c1'' example_props initial_provider
       = Inr ([AssignVisible ''c1'' True], example_mounted)"
    by (simp add: ReModal_mount_provider setVisible_events setVisible_state setView_def
        setConfig_def selectedView_def empty_config_def example_props_def example_mounted_def
        initial_provider_def obj_set_def)
  have k: "obj_keys (views initial_provider) = []" "obj_keys (configs initial_provider) = []"
    "obj_keys (visibleView initial_provider) = []"
    by (simp_all add: initial_provider_def obj_keys_def)
  show ?thesis
    using missing_provider_is_the_only_error
      [of "''c1''" example_props initial_provider DefaultContext "Some 5" empty_config None True]
    by (simp add: m k)
qed

lemma map_of_render:
  "map_of (ReModalProvider_render p) k =
     map_option (\<lambda>view.
        \<lparr> mp_children = view,
          mp_isVisible = obj_get (visibleView p) k,
          mp_viewStyleFnc =
            (case modalAnimationFunction (selectedView p (Some k)) of
               None \<Rightarrow> defaultModalAnimationStyle | Some f \<Rightarrow> f),
          mp_onCancel = onCancel (selectedView p (Some k)),
          mp_autoCloseWhenOpeningNextDialog =
            autoCloseWhenOpeningNextDialog (selectedView p (Some k)),
          mp_onModalShow = onModalShow (selectedView p (Some k)),
          mp_onModalHide = onModalHide (selectedView p (Some k)),
          mp_containerStyle = containerStyle (selectedView p (Some k)),
          mp_keyboardAvoiding = keyboardAvoiding (selectedView p (Some k)),
          mp_keyboardVerticalOffset = keyboardVerticalOffset (selectedView p (Some k)) \<rparr>)
       (obj_get (views p) k)"
proof -
  have "map_of (map (\<lambda>kv. (fst kv, F (fst kv) (snd kv))) xs) k = map_option (F k) (map_of xs k)"
    for F :: "key \<Rightarrow> element option \<Rightarrow> modal_props" and xs
    by (induction xs) auto
  then show ?thesis
    by (simp add: ReModalProvider_render_def Let_def obj_get_def)
qed

lemma render_keys: "map fst (ReModalProvider_render p) = obj_keys (views p)"
  by (simp add: ReModalProvider_render_def obj_keys_def Let_def comp_def)

lemma ReModal_unmount_state:
  "snd (ReModal_unmount cur k p) =
     p\<lparr> visibleView := obj_set k False (visibleView p), views := obj_set k None (views p) \<rparr>"
  by (simp add: ReModal_unmount_def Let_def setVisible_state setView_def)

lemma ReModal_unmount_events: "fst (ReModal_unmount cur k p) = [AssignVisible k False]"
  by (simp add: ReModal_unmount_def Let_def setVisible_events)

text \<open>
  C5 as stated fails: after \<open>c1\<close> has mounted and unmounted, its configuration is still
  stored, and \<open>c1\<close> is still a key of \<^verbatim>\<open>views\<close>, so the Provider still renders a
  \<^verbatim>\<open>Modal\<close> for it.
\<close>

theorem unmount_keeps_configuration_and_overlay_counterexample:
  "ReModal_mount (ProviderContext None) ''c1'' example_props initial_provider
     = Inr ([AssignVisible ''c1'' True], example_mounted)
   \<and> snd (ReModal_unmount None ''c1'' example_mounted) = example_unmounted
   \<and> obj_get (configs example_unmounted) ''c1'' = Some (ReModal_config example_props)
   \<and> map fst (ReModalProvider_render example_unmounted) = [''c1'']"
  by (simp add: ReModal_mount_provider setVisible_events setVisible_state setView_def
        setConfig_def selectedView_def empty_config_def example_props_def example_mounted_def
        example_unmounted_def initial_provider_def obj_set_def obj_get_def
        ReModal_unmount_state render_keys obj_keys_def)

text \<open>
  C5, amended. When a declaration unmounts, the content of its identity is set to absent
  and its visibility to false, without invoking any callback. The stored
  configurations are untouched, the entries of every other identity are unchanged, and
  the identity remains a key of \<^verbatim>\<open>views\<close>: the Provider goes on rendering a
  \<^verbatim>\<open>Modal\<close> for it, with absent content and \<^verbatim>\<open>isVisible\<close> false.
\<close>

theorem unmount_clears_content_and_visibility:
  "fst (ReModal_unmount cur k p) = [AssignVisible k False]
   \<and> obj_get (views (snd (ReModal_unmount cur k p))) k = Some None
   \<and> obj_get (visibleView (snd (ReModal_unmount cur k p))) k = Some False
   \<and> configs (snd (ReModal_unmount cur k p)) = configs p
   \<and> (\<forall>k'. k' \<noteq> k \<longrightarrow>
         obj_get (views (snd (ReModal_unmount cur k p))) k' = obj_get (views p) k'
       \<and> obj_get (visibleView (snd (ReModal_unmount cur k p))) k' = obj_get (visibleView p) k')
   \<and> k \<in> set (map fst (ReModalProvider_render (snd (ReModal_unmount cur k p))))
   \<and> (\<exists>props. map_of (ReModalProvider_render (snd (ReModal_unmount cur k p))) k = Some props
         \<and> mp_children props = None \<and> mp_isVisible props = Some False)"
  by (simp add: ReModal_unmount_events ReModal_unmount_state obj_get_set render_keys
        obj_keys_set map_of_render)

text \<open>Unmounting \<open>cA\<close> in the example registry leaves \<open>cB\<close> as it was.\<close>

theorem unmount_clears_content_and_visibility_witness:
  "obj_get (views (snd (ReModal_unmount None ''cA'' (example_registry True)))) ''cA'' = Some None
   \<and> obj_get (visibleView (snd (ReModal_unmount None ''cA'' (example_registry True)))) ''cA''
       = Some False
   \<and> obj_get (views (snd (ReModal_unmount None ''cA'' (example_registry True)))) ''cB''
       = Some (Some 2)
   \<and> obj_get (visibleView (snd (ReModal_unmount None ''cA'' (example_registry True)))) ''cB''
       = Some False"
  using unmount_clears_content_and_visibility [of None "''cA''" "example_registry True"]
  by (simp add: example_registry_def obj_get_def)

section \<open>The engine, one evaluation at a time\<close>

lemma signal_phase_show: "toValue (conf e) \<noteq> 1 \<Longrightarrow> signal_phase BEGAN e = start_run 1 e"
  by (simp add: signal_phase_def Let_def)

lemma signal_phase_hide: "toValue (conf e) \<noteq> 0 \<Longrightarrow> signal_phase END e = start_run 0 e"
  by (simp add: signal_phase_def Let_def)

lemma signal_phase_on_target:
  "gs = BEGAN \<and> toValue (conf e) = 1 \<or> gs = END \<and> toValue (conf e) = 0 \<Longrightarrow> signal_phase gs e = e"
  by (auto simp: signal_phase_def Let_def)

lemma signal_phase_no_signal: "gs \<noteq> BEGAN \<Longrightarrow> gs \<noteq> END \<Longrightarrow> signal_phase gs e = e"
  by (simp add: signal_phase_def Let_def)

lemma start_run_simps:
  "clockRunning (start_run v e)"
  "finished (anim (start_run v e)) = 0"
  "time (anim (start_run v e)) = 0"
  "frameTime (anim (start_run v e)) = 0"
  "position (anim (start_run v e)) = position (anim e)"
  "toValue (conf (start_run v e)) = v"
  "duration (conf (start_run v e)) = duration (conf e)"
  by (simp_all add: start_run_def)

lemma stop_timing_simps:
  "conf (stop_phase (timing_phase tm now e)) = conf e"
  "anim (stop_phase (timing_phase tm now e)) = tm now (anim e) (conf e)"
  "clockRunning (stop_phase (timing_phase tm now e)) =
     (clockRunning e \<and> finished (tm now (anim e) (conf e)) = 0)"
  by (simp_all add: stop_phase_def timing_phase_def)

lemma completion_calls_unfinished:
  "finished (anim e) = 0 \<Longrightarrow> completion_calls sh hi gs e = []"
  by (simp add: completion_calls_def split: option.splits)

lemma completion_calls_no_show:
  "gs \<noteq> BEGAN \<Longrightarrow> OnModalShow f \<notin> set (completion_calls sh hi gs e)"
  by (simp add: completion_calls_def split: option.splits)

section \<open>The renderer, one step at a time\<close>

lemma frames_simps: "frames [] = []" "frames (t # ts) = (t, Frame) # frames ts"
  by (simp_all add: frames_def)

lemma Modal_frame_stopped: "\<not> clockRunning (opacity m) \<Longrightarrow> Modal_frame tm now m = ([], m)"
  by (simp add: Modal_frame_def)

lemma Modal_frame_running:
  assumes "clockRunning (opacity m)" and "on_target m"
  shows "Modal_frame tm now m =
           (completion_calls (showCallback m) (hideCallback m) (animationState m)
              (stop_phase (timing_phase tm now (opacity m))),
            m\<lparr> opacity := stop_phase (timing_phase tm now (opacity m)) \<rparr>)"
  using assms
  by (simp add: Modal_frame_def runOpacityTimer_def Let_def on_target_def signal_phase_on_target)

lemma frames_stopped:
  "\<not> clockRunning (opacity m) \<Longrightarrow> Modal_run tm (frames ts) m = ([], m)"
  by (induction ts) (simp_all add: frames_simps Modal_step_def Modal_frame_stopped)

lemma frames_on_target:
  assumes "on_target m" and "clockRunning (opacity m)" and "finished (anim (opacity m)) = 0"
  shows "fst (Modal_run tm (frames ts) m) =
           completion_calls (showCallback m) (hideCallback m) (animationState m)
             (opacity (snd (Modal_run tm (frames ts) m)))
       \<and> same_refs m (snd (Modal_run tm (frames ts) m))
       \<and> (clockRunning (opacity (snd (Modal_run tm (frames ts) m))) \<longleftrightarrow>
            finished (anim (opacity (snd (Modal_run tm (frames ts) m)))) = 0)"
  using assms
proof (induction ts arbitrary: m)
  case Nil
  then show ?case by (simp add: frames_simps completion_calls_unfinished same_refs_def)
next
  case (Cons t ts)
  let ?e = "stop_phase (timing_phase tm t (opacity m))"
  let ?m = "m\<lparr> opacity := ?e \<rparr>"
  have step: "Modal_step tm (t, Frame) m =
                (completion_calls (showCallback m) (hideCallback m) (animationState m) ?e, ?m)"
    using Cons.prems by (simp add: Modal_step_def Modal_frame_running)
  have refs: "same_refs m ?m"
    by (simp add: same_refs_def stop_timing_simps)
  have tgt: "on_target ?m"
    using Cons.prems(1) by (simp add: on_target_def stop_timing_simps)
  show ?case
  proof (cases "finished (anim ?e) = 0")
    case True
    then have run: "clockRunning (opacity ?m)"
      using Cons.prems(2) by (simp add: stop_timing_simps)
    from Cons.IH [OF tgt run] True refs show ?thesis
      by (simp add: frames_simps step Let_def completion_calls_unfinished same_refs_def)
  next
    case False
    then have "\<not> clockRunning (opacity ?m)"
      by (simp add: stop_timing_simps)
    then have "Modal_run tm (frames ts) ?m = ([], ?m)"
      by (rule frames_stopped)
    with False refs show ?thesis
      by (simp add: frames_simps step Let_def stop_timing_simps)
  qed
qed

lemma Modal_run_append:
  "Modal_run tm (xs @ ys) m =
     (fst (Modal_run tm xs m) @ fst (Modal_run tm ys (snd (Modal_run tm xs m))),
      snd (Modal_run tm ys (snd (Modal_run tm xs m))))"
  by (induction xs arbitrary: m) (simp_all add: Let_def)

text \<open>A render that changes the prop to a value the engine does not target yet.\<close>

lemma Modal_render_starts:
  assumes "init m" and "isVisible m \<noteq> Some v"
    and "toValue (conf (opacity m)) \<noteq> (if v then 1 else 0)"
  shows "Modal_render tm now (Some v) m =
           (completion_calls (showCallback m) (hideCallback m) (if v then BEGAN else END)
              (stop_phase (timing_phase tm now (start_run (if v then 1 else 0) (opacity m)))),
            m\<lparr> isVisible := Some v, animationState := (if v then BEGAN else END),
               opacity := stop_phase (timing_phase tm now (start_run (if v then 1 else 0) (opacity m))) \<rparr>)"
  using assms
  by (cases v)
     (auto simp: Modal_render_def Modal_effect_def runOpacityTimer_def Let_def
        signal_phase_show signal_phase_hide)

lemma render_then_frames:
  assumes "init m" and "isVisible m \<noteq> Some v"
    and "toValue (conf (opacity m)) \<noteq> (if v then 1 else 0)"
    and r_def: "r = Modal_run tm ((t0, Render (Some v)) # frames ts) m"
  shows "fst r = completion_calls (showCallback m) (hideCallback m) (if v then BEGAN else END)
                   (opacity (snd r))
       \<and> isVisible (snd r) = Some v \<and> animationState (snd r) = (if v then BEGAN else END)
       \<and> init (snd r) \<and> showCallback (snd r) = showCallback m
       \<and> hideCallback (snd r) = hideCallback m
       \<and> conf (opacity (snd r)) = (conf (opacity m))\<lparr> toValue := (if v then 1 else 0) \<rparr>
       \<and> (clockRunning (opacity (snd r)) \<longleftrightarrow> finished (anim (opacity (snd r))) = 0)"
proof -
  let ?e = "stop_phase (timing_phase tm t0 (start_run (if v then 1 else 0) (opacity m)))"
  let ?m = "m\<lparr> isVisible := Some v, animationState := (if v then BEGAN else END), opacity := ?e \<rparr>"
  let ?fs = "frames ts"
  have step: "Modal_step tm (t0, Render (Some v)) m =
      (completion_calls (showCallback m) (hideCallback m) (if v then BEGAN else END) ?e, ?m)"
    using assms(1-3) by (simp add: Modal_step_def Modal_render_starts)
  have r: "r = (fst (Modal_step tm (t0, Render (Some v)) m) @ fst (Modal_run tm ?fs ?m),
                snd (Modal_run tm ?fs ?m))"
    by (simp add: r_def Let_def step)
  have conf: "conf ?e = (conf (opacity m))\<lparr> toValue := (if v then 1 else 0) \<rparr>"
    by (simp add: stop_timing_simps start_run_def)
  have tgt: "on_target ?m"
    by (simp add: on_target_def conf)
  have run: "clockRunning ?e \<longleftrightarrow> finished (anim ?e) = 0"
    by (simp add: stop_timing_simps start_run_simps)
  show ?thesis
  proof (cases "finished (anim ?e) = 0")
    case True
    with run have running: "clockRunning (opacity ?m)" by simp
    from True have fin: "finished (anim (opacity ?m)) = 0" by simp
    from frames_on_target [OF tgt running fin, of tm ts] True conf assms(1) show ?thesis
      by (auto simp: r step completion_calls_unfinished same_refs_def)
  next
    case False
    with run have "\<not> clockRunning (opacity ?m)" by simp
    then have "Modal_run tm ?fs ?m = ([], ?m)" by (rule frames_stopped)
    with False run conf assms(1) show ?thesis
      by (simp add: r step)
  qed
qed

section \<open>Transitions\<close>

lemma Modal_mount_eq:
  "Modal_mount os tm now v sh hi =
     ([], \<lparr> isVisible = v, animationState = - 1, init = True, opacity = new_engine os,
            showCallback = sh, hideCallback = hi \<rparr>)"
  by (simp add: Modal_mount_def Modal_effect_def)

lemma finished_calls:
  "finished (anim e) \<noteq> 0 \<Longrightarrow>
   completion_calls sh hi (if v then BEGAN else END) e =
     (if v then (case sh of None \<Rightarrow> [] | Some f \<Rightarrow> [OnModalShow f])
      else (case hi of None \<Rightarrow> [] | Some g \<Rightarrow> [OnModalHide g]))"
  by (simp add: completion_calls_def split: option.splits)

text \<open>
  C3. Take a mounted renderer whose prop changes to \<open>v\<close> while the engine does not aim at
  the matching target yet, so that a timing run starts, and let only frames follow. If
  the run has completed (the timing node has raised the finished flag), the trace of the
  whole run is the single invocation of the matching callback, \<^verbatim>\<open>onModalShow\<close> for a
  show and \<^verbatim>\<open>onModalHide\<close> for a hide (or empty when that callback is not set); the
  clock is stopped, and further frames do nothing. If the run has not completed, nothing
  has been invoked. Whenever a run starts, the finished flag is reset and the clock is
  started.
\<close>

theorem completion_callback_fires_once:
  assumes "init m" and "isVisible m \<noteq> Some v"
    and "toValue (conf (opacity m)) \<noteq> (if v then 1 else 0)"
    and "r = Modal_run tm ((t0, Render (Some v)) # frames ts) m"
  shows "(finished (anim (opacity (snd r))) \<noteq> 0 \<longrightarrow>
            fst r = (if v then (case showCallback m of None \<Rightarrow> [] | Some f \<Rightarrow> [OnModalShow f])
                     else (case hideCallback m of None \<Rightarrow> [] | Some g \<Rightarrow> [OnModalHide g]))
          \<and> \<not> clockRunning (opacity (snd r))
          \<and> Modal_run tm (frames ts') (snd r) = ([], snd r))
       \<and> (finished (anim (opacity (snd r))) = 0 \<longrightarrow> fst r = [])
       \<and> (toValue (conf e) \<noteq> 1 \<longrightarrow>
            finished (anim (signal_phase BEGAN e)) = 0 \<and> clockRunning (signal_phase BEGAN e))
       \<and> (toValue (conf e) \<noteq> 0 \<longrightarrow>
            finished (anim (signal_phase END e)) = 0 \<and> clockRunning (signal_phase END e))"
proof -
  note rf = render_then_frames [OF assms]
  have "\<not> clockRunning (opacity (snd r)) \<Longrightarrow> Modal_run tm (frames ts') (snd r) = ([], snd r)"
    by (rule frames_stopped)
  with rf show ?thesis
    by (simp add: finished_calls completion_calls_unfinished signal_phase_show
        signal_phase_hide start_run_simps)
qed

lemma example_modal_eq:
  "example_modal =
     \<lparr> isVisible = Some False, animationState = - 1, init = True, opacity = new_engine Ios,
       showCallback = Some 8, hideCallback = Some 9 \<rparr>"
  by (simp add: example_modal_def Modal_mount_eq)

text \<open>A show transition of 300 ms, observed for 400 ms.\<close>

theorem completion_callback_fires_once_witness:
  "fst (Modal_run linear_timing ((16, Render (Some True)) # frames [116, 216, 316, 416])
          example_modal) = [OnModalShow 8]
   \<and> progress (opacity (snd (Modal_run linear_timing
          ((16, Render (Some True)) # frames [116, 216, 316, 416]) example_modal))) = 1"
proof -
  have run: "Modal_run linear_timing ((16, Render (Some True)) # frames [116, 216, 316, 416])
               example_modal
     = ([OnModalShow 8],
        \<lparr> isVisible = Some True, animationState = BEGAN, init = True,
          opacity = \<lparr> clockRunning = False,
                      anim = \<lparr> finished = 1, position = 1, time = 316, frameTime = 300 \<rparr>,
                      conf = \<lparr> duration = 300, toValue = 1 \<rparr> \<rparr>,
          showCallback = Some 8, hideCallback = Some 9 \<rparr>)"
    by (simp add: example_modal_eq frames_simps Modal_step_def Modal_render_def Modal_effect_def
        Modal_frame_def runOpacityTimer_def signal_phase_def start_run_def timing_phase_def
        stop_phase_def completion_calls_def linear_timing_def new_engine_def Let_def)
  have h: "init example_modal" "isVisible example_modal \<noteq> Some True"
    "toValue (conf (opacity example_modal)) \<noteq> (if True then 1 else 0)"
    by (simp_all add: example_modal_eq new_engine_def)
  note fact = completion_callback_fires_once
    [OF h refl, of linear_timing 16 "[116, 216, 316, 416]" "[]" "new_engine Ios", unfolded run]
  from fact show ?thesis
    unfolding run by (simp add: example_modal_eq progress_def)
qed

text \<open>
  C2. A show transition starts and is still unfinished when the prop changes back to
  false. Then \<^verbatim>\<open>onModalShow\<close> is never invoked, neither before the reversal nor during
  the hide transition that follows; the trace holds at most the one \<^verbatim>\<open>onModalHide\<close> of
  a completed hide. The reversal leaves the position as it is: the first evaluation of
  the hide run hands the timing node the interrupted position, with the finished flag,
  the time and the frame time reset and with target 0, and the target is still 0 at the
  end.
\<close>

theorem reversal_resumes_from_interrupted_position:
  assumes "init m" and "isVisible m \<noteq> Some True" and "toValue (conf (opacity m)) \<noteq> 1"
    and "ma = snd (Modal_run tm ((ta, Render (Some True)) # frames tsa) m)"
    and "finished (anim (opacity ma)) = 0"
    and "r = Modal_run tm (((ta, Render (Some True)) # frames tsa)
                             @ ((tb, Render (Some False)) # frames tsb)) m"
  shows "OnModalShow f \<notin> set (fst r)
       \<and> fst r = (if finished (anim (opacity (snd r))) \<noteq> 0
                  then (case hideCallback m of None \<Rightarrow> [] | Some g \<Rightarrow> [OnModalHide g]) else [])
       \<and> position (anim (signal_phase END (opacity ma))) = position (anim (opacity ma))
       \<and> anim (opacity (snd (Modal_render tm tb (Some False) ma))) =
           tm tb ((anim (opacity ma))\<lparr> finished := 0, time := 0, frameTime := 0 \<rparr>)
             ((conf (opacity ma))\<lparr> toValue := 0 \<rparr>)
       \<and> toValue (conf (opacity (snd r))) = 0"
proof -
  have show_run: "ma = snd (Modal_run tm ((ta, Render (Some True)) # frames tsa) m)"
    by (rule assms(4))
  have tgt: "toValue (conf (opacity m)) \<noteq> (if True then 1 else 0)"
    using assms(3) by simp
  note first = render_then_frames [OF assms(1,2) tgt refl, of tm ta tsa, folded show_run]
  from first assms(5)
  have e1: "fst (Modal_run tm ((ta, Render (Some True)) # frames tsa) m) = []"
    by (simp add: completion_calls_unfinished)
  from first have ma: "init ma" "isVisible ma \<noteq> Some False"
    "toValue (conf (opacity ma)) \<noteq> (if False then 1 else 0)"
    "showCallback ma = showCallback m" "hideCallback ma = hideCallback m"
    by simp_all
  note second = render_then_frames [OF ma(1-3) refl, of tm tb tsb]
  have r: "r = (fst (Modal_run tm ((tb, Render (Some False)) # frames tsb) ma),
                snd (Modal_run tm ((tb, Render (Some False)) # frames tsb) ma))"
    unfolding assms(6) Modal_run_append show_run [symmetric] e1 by simp
  have hide_only: "OnModalShow f \<notin> set (completion_calls sh hi END e)" for sh hi e
    by (rule completion_calls_no_show) simp
  have calls: "completion_calls sh hi END e =
      (if finished (anim e) \<noteq> 0 then (case hi of None \<Rightarrow> [] | Some g \<Rightarrow> [OnModalHide g]) else [])"
    for sh hi e
    using finished_calls [of e sh hi False] by (simp add: completion_calls_unfinished)
  have pos: "position (anim (signal_phase END (opacity ma))) = position (anim (opacity ma))"
    using ma(3) by (simp add: signal_phase_hide start_run_simps)
  have tick: "anim (opacity (snd (Modal_render tm tb (Some False) ma))) =
           tm tb ((anim (opacity ma))\<lparr> finished := 0, time := 0, frameTime := 0 \<rparr>)
             ((conf (opacity ma))\<lparr> toValue := 0 \<rparr>)"
    using ma(1-3) by (simp add: Modal_render_starts stop_timing_simps) (simp add: start_run_def)
  from second show ?thesis
    by (simp add: r hide_only ma pos tick) (simp add: calls)
qed

text \<open>A show transition reversed half way, at position one half.\<close>

theorem reversal_resumes_from_interrupted_position_witness:
  "OnModalShow 8 \<notin> set (fst (Modal_run linear_timing
       (((16, Render (Some True)) # frames [166])
          @ ((216, Render (Some False)) # frames [316, 416])) example_modal))
   \<and> position (anim (opacity (snd (Modal_render linear_timing 216 (Some False)
        (snd (Modal_run linear_timing ((16, Render (Some True)) # frames [166]) example_modal)))))) = 1 / 2"
proof -
  have run: "Modal_run linear_timing ((16, Render (Some True)) # frames [166]) example_modal
     = ([],
        \<lparr> isVisible = Some True, animationState = BEGAN, init = True,
          opacity = \<lparr> clockRunning = True,
                      anim = \<lparr> finished = 0, position = 1 / 2, time = 166, frameTime = 150 \<rparr>,
                      conf = \<lparr> duration = 300, toValue = 1 \<rparr> \<rparr>,
          showCallback = Some 8, hideCallback = Some 9 \<rparr>)"
    by (simp add: example_modal_eq frames_simps Modal_step_def Modal_render_def Modal_effect_def
        Modal_frame_def runOpacityTimer_def signal_phase_def start_run_def timing_phase_def
        stop_phase_def completion_calls_def linear_timing_def new_engine_def Let_def)
  have h: "init example_modal" "isVisible example_modal \<noteq> Some True"
    "toValue (conf (opacity example_modal)) \<noteq> 1"
    by (simp_all add: example_modal_eq new_engine_def)
  have unfinished: "finished (anim (opacity (snd (Modal_run linear_timing
      ((16, Render (Some True)) # frames [166]) example_modal)))) = 0"
    unfolding run by simp
  note fact = reversal_resumes_from_interrupted_position
    [OF h refl unfinished refl, where tb = 216 and tsb = "[316, 416]" and f = 8]
  from fact have "OnModalShow 8 \<notin> set (fst (Modal_run linear_timing
       (((16, Render (Some True)) # frames [166])
          @ ((216, Render (Some False)) # frames [316, 416])) example_modal))"
    by (rule conjunct1)
  moreover from fact have "anim (opacity (snd (Modal_render linear_timing 216 (Some False)
        (snd (Modal_run linear_timing ((16, Render (Some True)) # frames [166]) example_modal)))))
      = linear_timing 216 \<lparr> finished = 0, position = 1 / 2, time = 0, frameTime = 0 \<rparr>
          \<lparr> duration = 300, toValue = 0 \<rparr>"
    unfolding run by simp
  ultimately show ?thesis
    by (simp add: linear_timing_def)
qed

lemma setVisible_twice:
  "snd (setVisible cur' k v (snd (setVisible cur k v p))) = snd (setVisible cur k v p)"
  by (simp add: setVisible_state obj_set_twice)

text \<open>
  C6. A second \<^verbatim>\<open>setVisible(id, true)\<close> leaves the registry as the first one left it, so
  the Provider renders the same props; a renderer whose \<^verbatim>\<open>isVisible\<close> is already true
  does not run its effect on such a render: its engine is not evaluated, nothing is
  reset and nothing is invoked. The engine itself ignores the signal BEGAN while its
  target is 1: neither guarded block changes it.
\<close>

theorem opening_twice_does_not_restart:
  "snd (setVisible cur' k True (snd (setVisible cur k True p))) = snd (setVisible cur k True p)
   \<and> ReModalProvider_render (snd (setVisible cur' k True (snd (setVisible cur k True p))))
       = ReModalProvider_render (snd (setVisible cur k True p))
   \<and> (isVisible m = Some True \<longrightarrow> Modal_render tm now (Some True) m = ([], m))
   \<and> (toValue (conf e) = 1 \<longrightarrow> signal_phase BEGAN e = e)"
  by (simp add: setVisible_twice Modal_render_def signal_phase_on_target)

text \<open>A renderer that has completed its show transition is rendered again as visible.\<close>

theorem opening_twice_does_not_restart_witness:
  "Modal_render linear_timing 500 (Some True) example_shown = ([], example_shown)
   \<and> signal_phase BEGAN (opacity example_shown) = opacity example_shown"
  using opening_twice_does_not_restart
    [of None "''c1''" None initial_provider example_shown linear_timing 500 "opacity example_shown"]
  by (simp add: example_shown_def)

lemma undriven_steps:
  assumes "\<not> clockRunning (opacity m)"
    and "\<forall>s \<in> set steps. snd s = Frame \<or> snd s = Render (isVisible m)"
  shows "Modal_run tm steps m = ([], m)"
  using assms(2)
proof (induction steps)
  case Nil
  show ?case by simp
next
  case (Cons s steps)
  then have "Modal_step tm s m = ([], m)"
    using assms(1) by (auto simp: Modal_step_def Modal_frame_stopped Modal_render_def)
  with Cons show ?case by simp
qed

text \<open>
  C9. The first render assigns nothing to the signal: after mounting, the signal is
  \<open>-1\<close>, which is neither BEGAN nor END, the engine is as it was created and the
  progress is 0. Frames and renders with the same \<^verbatim>\<open>isVisible\<close> change nothing and
  invoke nothing. A renderer mounted with \<^verbatim>\<open>isVisible\<close> true intercepts pointer input
  all the while. The signal is assigned by the first render whose \<^verbatim>\<open>isVisible\<close> differs.
\<close>

theorem first_render_does_not_drive_engine:
  assumes "m = snd (Modal_mount os tm now v sh hi)"
  shows "fst (Modal_mount os tm now v sh hi) = []
       \<and> animationState m = - 1 \<and> animationState m \<noteq> BEGAN \<and> animationState m \<noteq> END
       \<and> opacity m = new_engine os \<and> progress (opacity m) = 0
       \<and> ((\<forall>s \<in> set steps. snd s = Frame \<or> snd s = Render v) \<longrightarrow>
            Modal_run tm steps m = ([], m))
       \<and> (v = Some True \<longrightarrow> pointerEvents m = Auto)
       \<and> (v' \<noteq> v \<longrightarrow>
            animationState (snd (Modal_render tm now' v' m))
              = (if v' = Some True then BEGAN else END))"
proof -
  have m: "m = \<lparr> isVisible = v, animationState = - 1, init = True, opacity = new_engine os,
                 showCallback = sh, hideCallback = hi \<rparr>"
    by (simp add: assms Modal_mount_eq)
  have idle: "\<not> clockRunning (opacity m)"
    by (simp add: m new_engine_def)
  have "(\<forall>s \<in> set steps. snd s = Frame \<or> snd s = Render v) \<Longrightarrow> Modal_run tm steps m = ([], m)"
    using undriven_steps [OF idle, of steps tm] by (simp add: m)
  then show ?thesis
    by (auto simp: Modal_mount_eq m progress_def new_engine_def pointerEvents_def
        Modal_render_def Modal_effect_def Let_def)
qed

text \<open>A renderer mounted visible, left alone for 400 ms, then hidden.\<close>

theorem first_render_does_not_drive_engine_witness:
  "Modal_run linear_timing [(16, Frame), (116, Render (Some True)), (416, Frame)]
      (snd (Modal_mount Ios linear_timing 0 (Some True) (Some 8) (Some 9)))
     = ([], snd (Modal_mount Ios linear_timing 0 (Some True) (Some 8) (Some 9)))
   \<and> progress (opacity (snd (Modal_mount Ios linear_timing 0 (Some True) (Some 8) (Some 9)))) = 0
   \<and> pointerEvents (snd (Modal_mount Ios linear_timing 0 (Some True) (Some 8) (Some 9))) = Auto
   \<and> animationState (snd (Modal_render linear_timing 516 (Some False)
        (snd (Modal_mount Ios linear_timing 0 (Some True) (Some 8) (Some 9))))) = END"
  using first_render_does_not_drive_engine
    [OF refl, of Ios linear_timing 0 "Some True" "Some 8" "Some 9"
      "[(16, Frame), (116, Render (Some True)), (416, Frame)]" "Some False" 516]
  by (simp add: progress_def new_engine_def)

section \<open>Settling\<close>

lemma reaches_targetD:
  "reaches_target tm \<Longrightarrow> finished s = 0 \<Longrightarrow> finished (tm now s c) \<noteq> 0 \<Longrightarrow>
   position (tm now s c) = toValue c"
  by (auto simp: reaches_target_def)

lemma driven_on_target: "driven m \<Longrightarrow> on_target m"
  by (auto simp: driven_def on_target_def)

lemma undriven_keep:
  assumes "undriven os m" and "snd s = Frame \<or> snd s = Render (isVisible m)"
  shows "Modal_step tm s m = ([], m)"
  using assms
  by (auto simp: undriven_def Modal_step_def Modal_frame_def Modal_render_def new_engine_def)

lemma started_driven:
  assumes tm: "reaches_target tm" and "init m" and "isVisible m \<noteq> Some b"
    and "toValue (conf (opacity m)) \<noteq> (if b then 1 else 0)"
  shows "driven (snd (Modal_step tm (t, Render (Some b)) m))
       \<and> isVisible (snd (Modal_step tm (t, Render (Some b)) m)) = Some b"
proof -
  let ?s = "start_run (if b then 1 else 0) (opacity m)"
  have pos: "finished (tm t (anim ?s) (conf ?s)) \<noteq> 0 \<Longrightarrow>
             position (tm t (anim ?s) (conf ?s)) = toValue (conf ?s)"
    by (rule reaches_targetD [OF tm]) (simp add: start_run_simps)
  show ?thesis
    using assms(2-4) pos
    by (cases b)
       (auto simp: Modal_step_def Modal_render_starts driven_def stop_timing_simps start_run_simps)
qed

lemma undriven_change:
  assumes "reaches_target tm" and "undriven os m" and "Some b \<noteq> isVisible m"
  shows "driven (snd (Modal_step tm (t, Render (Some b)) m))
       \<and> isVisible (snd (Modal_step tm (t, Render (Some b)) m)) = Some b"
proof (rule started_driven [OF assms(1)])
  show "init m" using assms(2) by (simp add: undriven_def)
  show "isVisible m \<noteq> Some b" using assms(3) by auto
  show "toValue (conf (opacity m)) \<noteq> (if b then 1 else 0)"
    using assms(2) by (simp add: undriven_def new_engine_def)
qed

lemma driven_frame:
  assumes tm: "reaches_target tm" and d: "driven m"
  shows "driven (snd (Modal_step tm (t, Frame) m))
       \<and> isVisible (snd (Modal_step tm (t, Frame) m)) = isVisible m"
proof (cases "clockRunning (opacity m)")
  case False
  with d show ?thesis by (simp add: Modal_step_def Modal_frame_stopped)
next
  case True
  with d have fin: "finished (anim (opacity m)) = 0" by (simp add: driven_def)
  have pos: "finished (tm t (anim (opacity m)) (conf (opacity m))) \<noteq> 0 \<Longrightarrow>
             position (tm t (anim (opacity m)) (conf (opacity m))) = toValue (conf (opacity m))"
    by (rule reaches_targetD [OF tm fin])
  from d True pos show ?thesis
    by (simp add: Modal_step_def Modal_frame_running [OF True driven_on_target [OF d]])
       (auto simp: driven_def stop_timing_simps)
qed

lemma driven_render:
  assumes tm: "reaches_target tm" and d: "driven m"
  shows "driven (snd (Modal_step tm (t, Render (Some b)) m))
       \<and> isVisible (snd (Modal_step tm (t, Render (Some b)) m)) = Some b"
proof (cases "isVisible m = Some b")
  case True
  with d show ?thesis by (simp add: Modal_step_def Modal_render_def)
next
  case False
  show ?thesis
  proof (rule started_driven [OF tm _ False])
    show "init m" using d by (simp add: driven_def)
    show "toValue (conf (opacity m)) \<noteq> (if b then 1 else 0)"
      using d False by (auto simp: driven_def)
  qed
qed

lemma driven_run:
  assumes "reaches_target tm" and "driven m" and "\<forall>s \<in> set steps. snd s \<noteq> Render None"
  shows "driven (snd (Modal_run tm steps m))
       \<and> isVisible (snd (Modal_run tm steps m)) = delivered (isVisible m) steps"
  using assms(2,3)
proof (induction steps arbitrary: m)
  case Nil
  then show ?case by simp
next
  case (Cons s steps)
  obtain t x where s: "s = (t, x)" by (cases s)
  from Cons.prems(2) s have x: "x \<noteq> Render None" by auto
  have "driven (snd (Modal_step tm s m))
      \<and> isVisible (snd (Modal_step tm s m)) = (case x of Render v' \<Rightarrow> v' | Frame \<Rightarrow> isVisible m)"
  proof (cases x)
    case Frame
    with driven_frame [OF assms(1) Cons.prems(1), of t] s show ?thesis by simp
  next
    case (Render v)
    with x obtain b where "v = Some b" by (cases v) auto
    with driven_render [OF assms(1) Cons.prems(1), of t b] s Render show ?thesis by simp
  qed
  with Cons.IH [of "snd (Modal_step tm s m)"] Cons.prems(2) s show ?case
    by (simp add: Let_def)
qed

lemma undriven_run:
  assumes "reaches_target tm" and "undriven os m" and "\<forall>s \<in> set steps. snd s \<noteq> Render None"
  shows "(if changed (isVisible m) steps then driven (snd (Modal_run tm steps m))
          else snd (Modal_run tm steps m) = m)
       \<and> isVisible (snd (Modal_run tm steps m)) = delivered (isVisible m) steps"
  using assms(2,3)
proof (induction steps arbitrary: m)
  case Nil
  then show ?case by (simp add: changed_def)
next
  case (Cons s steps)
  obtain t x where s: "s = (t, x)" by (cases s)
  from Cons.prems(2) s have x: "x \<noteq> Render None" by auto
  show ?case
  proof (cases "x = Frame \<or> x = Render (isVisible m)")
    case True
    with undriven_keep [OF Cons.prems(1), of s tm] s
    have step: "Modal_step tm (t, x) m = ([], m)" by simp
    from True have same: "(case x of Render v' \<Rightarrow> v' | Frame \<Rightarrow> isVisible m) = isVisible m"
      and unchanged: "\<not> (case x of Render v' \<Rightarrow> v' \<noteq> isVisible m | Frame \<Rightarrow> False)"
      by auto
    from Cons.IH [OF Cons.prems(1)] Cons.prems(2) show ?thesis
      by (simp add: step s Let_def changed_def same unchanged)
  next
    case False
    with x obtain v where v: "x = Render v" "v \<noteq> None" "v \<noteq> isVisible m"
      by (cases x) auto
    then obtain b where b: "x = Render (Some b)" "Some b \<noteq> isVisible m"
      by (cases v) auto
    note first = undriven_change [OF assms(1) Cons.prems(1) b(2), of t]
    from driven_run [OF assms(1) conjunct1 [OF first], of steps] Cons.prems(2) first b
    show ?thesis
      by (simp add: s Let_def changed_def)
  qed
qed

lemma driven_settled_progress:
  assumes "driven m" and "\<not> clockRunning (opacity m)"
  shows "progress (opacity m) = (if isVisible m = Some True then 1 else 0)"
  using assms by (auto simp: driven_def progress_def)

text \<open>
  What a settled engine shows. For a renderer and every finite history of frames and of
  renders that deliver a defined visibility, once the clock is stopped the progress is 1
  if the last delivered visibility is true and some delivered visibility differed from
  the one of the first render, and 0 otherwise. The timing node is assumed to put the
  position on the target when it raises the finished flag. The registry hands the
  renderer what \<^verbatim>\<open>setVisible\<close> stored.
\<close>

theorem settled_progress_follows_delivered_visibility:
  assumes "reaches_target tm"
    and "m0 = snd (Modal_mount os tm now v0 sh hi)"
    and "\<forall>s \<in> set steps. snd s \<noteq> Render None"
    and "m = snd (Modal_run tm steps m0)"
    and "\<not> clockRunning (opacity m)"
  shows "isVisible m = delivered v0 steps
       \<and> progress (opacity m) = (if delivered v0 steps = Some True \<and> changed v0 steps then 1 else 0)
       \<and> obj_get (visibleView (snd (setVisible cur k b p))) k = Some b
       \<and> (\<forall>props. map_of (ReModalProvider_render p) k = Some props \<longrightarrow>
            mp_isVisible props = obj_get (visibleView p) k)"
proof -
  have m0: "m0 = \<lparr> isVisible = v0, animationState = - 1, init = True, opacity = new_engine os,
                   showCallback = sh, hideCallback = hi \<rparr>"
    by (simp add: assms(2) Modal_mount_eq)
  have u: "undriven os m0" and v0: "isVisible m0 = v0"
    by (simp_all add: m0 undriven_def)
  note run = undriven_run [OF assms(1) u assms(3), folded assms(4), unfolded v0]
  have "progress (opacity m) = (if delivered v0 steps = Some True \<and> changed v0 steps then 1 else 0)"
  proof (cases "changed v0 steps")
    case True
    with run have "driven m" by simp
    from driven_settled_progress [OF this assms(5)] run True show ?thesis by simp
  next
    case False
    with run have "m = m0" by simp
    with False show ?thesis by (simp add: m0 progress_def new_engine_def)
  qed
  with run show ?thesis
    by (auto simp: setVisible_state obj_get_set map_of_render)
qed

text \<open>The example timing node meets both assumptions made about the library's node.\<close>

lemma linear_timing_reaches_target: "reaches_target linear_timing"
  by (simp add: reaches_target_def linear_timing_def Let_def)

lemma linear_timing_accumulates: "accumulates linear_timing"
  by (simp add: accumulates_def linear_timing_def Let_def)

text \<open>
  C4. After any sequence of \<^verbatim>\<open>setVisible(id, v)\<close> calls and enough frames, the progress
  of \<open>id\<close> should be 1 if the last call had \<open>v\<close> true. The code does not do this for a
  declaration that mounts visible. The only call is \<^verbatim>\<open>setVisible(c1, true)\<close>; the
  Provider renders and passes \<^verbatim>\<open>isVisible\<close> true, and the renderer mounts with it. Its
  engine is never started: after 400 ms of frames, more than the duration, the clock is
  not running and the progress is 0, while the renderer already intercepts pointer
  input as a visible dialog does.
\<close>

theorem mounted_visible_stays_hidden:
  "ReModal_mount (ProviderContext None) ''c1'' example_props initial_provider
     = Inr ([AssignVisible ''c1'' True], example_mounted)
   \<and> map_of (ReModalProvider_render example_mounted) ''c1''
       = Some \<lparr> mp_children = Some 5, mp_isVisible = Some True,
                  mp_viewStyleFnc = defaultModalAnimationStyle, mp_onCancel = Some 7,
                  mp_autoCloseWhenOpeningNextDialog = Some True, mp_onModalShow = Some 8,
                  mp_onModalHide = Some 9, mp_containerStyle = None,
                  mp_keyboardAvoiding = None, mp_keyboardVerticalOffset = None \<rparr>
   \<and> example_visible_modal = snd (Modal_mount Ios linear_timing 0 (Some True) (Some 8) (Some 9))
   \<and> Modal_run linear_timing (frames [16, 116, 216, 316, 416]) example_visible_modal
       = ([], example_visible_modal)
   \<and> \<not> clockRunning (opacity example_visible_modal)
   \<and> progress (opacity example_visible_modal) = 0
   \<and> pointerEvents example_visible_modal = Auto"
proof -
  have m: "example_visible_modal =
     \<lparr> isVisible = Some True, animationState = - 1, init = True, opacity = new_engine Ios,
       showCallback = Some 8, hideCallback = Some 9 \<rparr>"
    by (simp add: example_visible_modal_def Modal_mount_eq)
  have mount: "ReModal_mount (ProviderContext None) ''c1'' example_props initial_provider
     = Inr ([AssignVisible ''c1'' True], example_mounted)"
    by (simp add: ReModal_mount_provider setVisible_events setVisible_state setView_def
        setConfig_def selectedView_def empty_config_def example_props_def example_mounted_def
        initial_provider_def obj_set_def)
  have passed: "map_of (ReModalProvider_render example_mounted) ''c1''
       = Some \<lparr> mp_children = Some 5, mp_isVisible = Some True,
                  mp_viewStyleFnc = defaultModalAnimationStyle, mp_onCancel = Some 7,
                  mp_autoCloseWhenOpeningNextDialog = Some True, mp_onModalShow = Some 8,
                  mp_onModalHide = Some 9, mp_containerStyle = None,
                  mp_keyboardAvoiding = None, mp_keyboardVerticalOffset = None \<rparr>"
    by (simp add: map_of_render example_mounted_def obj_get_def selectedView_def
        ReModal_config_def example_props_def)
  have idle: "\<not> clockRunning (opacity example_visible_modal)"
    by (simp add: m new_engine_def)
  have run: "Modal_run linear_timing (frames [16, 116, 216, 316, 416]) example_visible_modal
       = ([], example_visible_modal)"
    using idle by (rule frames_stopped)
  have "progress (opacity example_visible_modal) = 0"
    and "pointerEvents example_visible_modal = Auto"
    by (simp_all add: m progress_def new_engine_def pointerEvents_def)
  with mount passed idle run show ?thesis by (simp add: example_visible_modal_def)
qed

text \<open>A renderer mounted hidden is toggled three times and then left to settle.\<close>

theorem settled_progress_follows_delivered_visibility_witness:
  "progress (opacity (snd (Modal_run linear_timing
      [(16, Render (Some True)), (116, Frame), (216, Render (Some False)),
       (316, Render (Some True)), (716, Frame)] example_modal))) = 1
   \<and> obj_get (visibleView (snd (setVisible None ''cB'' True (example_registry True)))) ''cB''
       = Some True"
proof -
  let ?steps = "[(16, Render (Some True)), (116, Frame), (216, Render (Some False)),
       (316, Render (Some True)), (716, Frame)] :: (real \<times> step) list"
  let ?m = "\<lambda>v g r f p t ft tv.
       \<lparr> isVisible = Some v, animationState = g, init = True,
         opacity = \<lparr> clockRunning = r,
                     anim = \<lparr> finished = f, position = p, time = t, frameTime = ft \<rparr>,
                     conf = \<lparr> duration = 300, toValue = tv \<rparr> \<rparr>,
         showCallback = Some 8, hideCallback = Some 9 \<rparr>"
  note defs = Modal_step_def Modal_render_def Modal_effect_def
        Modal_frame_def runOpacityTimer_def signal_phase_def start_run_def timing_phase_def
        stop_phase_def completion_calls_def linear_timing_def new_engine_def Let_def
  have s1: "Modal_step linear_timing (16, Render (Some True)) example_modal
              = ([], ?m True BEGAN True 0 0 16 0 1)"
    by (simp add: example_modal_eq defs)
  have s2: "Modal_step linear_timing (116, Frame) (?m True BEGAN True 0 0 16 0 1)
              = ([], ?m True BEGAN True 0 (1 / 3) 116 100 1)"
    by (simp add: defs)
  have s3: "Modal_step linear_timing (216, Render (Some False)) (?m True BEGAN True 0 (1 / 3) 116 100 1)
              = ([], ?m False END True 0 (1 / 3) 216 0 0)"
    by (simp add: defs)
  have s4: "Modal_step linear_timing (316, Render (Some True)) (?m False END True 0 (1 / 3) 216 0 0)
              = ([], ?m True BEGAN True 0 (1 / 3) 316 0 1)"
    by (simp add: defs)
  have s5: "Modal_step linear_timing (716, Frame) (?m True BEGAN True 0 (1 / 3) 316 0 1)
              = ([OnModalShow 8], ?m True BEGAN False 1 1 716 400 1)"
    by (simp add: defs)
  have run: "Modal_run linear_timing ?steps example_modal
               = ([OnModalShow 8], ?m True BEGAN False 1 1 716 400 1)"
    by (simp add: Let_def s1 s2 s3 s4 s5)
  have steps: "\<forall>s \<in> set ?steps. snd s \<noteq> Render None" by simp
  have settled: "\<not> clockRunning (opacity (snd (Modal_run linear_timing ?steps example_modal)))"
    unfolding run by simp
  have d: "delivered (Some False) ?steps = Some True" "changed (Some False) ?steps"
    by (simp_all add: changed_def)
  note fact = settled_progress_follows_delivered_visibility
    [OF linear_timing_reaches_target example_modal_def steps refl settled,
     of None "''cB''" True "example_registry True"]
  from fact d show ?thesis by (simp del: Modal_run.simps)
qed

text \<open>
  Settling is not an empty condition. With the bookkeeping above every run completes:
  once a frame comes a duration or more after the render that started the run, the
  finished flag is up and the clock is stopped.
\<close>

lemma frames_complete:
  assumes acc: "accumulates tm" and "on_target m" and "clockRunning (opacity m)"
    and "finished (anim (opacity m)) = 0"
    and "time (anim (opacity m)) \<noteq> 0"
    and "frameTime (anim (opacity m)) = time (anim (opacity m)) - t0"
    and "\<forall>t \<in> set ts. t \<noteq> 0" and "ts \<noteq> []"
    and "duration (conf (opacity m)) \<le> last ts - t0"
  shows "finished (anim (opacity (snd (Modal_run tm (frames ts) m)))) \<noteq> 0"
  using assms(2-)
proof (induction ts arbitrary: m)
  case Nil
  then show ?case by simp
next
  case (Cons t ts)
  let ?e = "stop_phase (timing_phase tm t (opacity m))"
  let ?m = "m\<lparr> opacity := ?e \<rparr>"
  have step: "Modal_step tm (t, Frame) m =
                (completion_calls (showCallback m) (hideCallback m) (animationState m) ?e, ?m)"
    using Cons.prems by (simp add: Modal_step_def Modal_frame_running)
  have run: "snd (Modal_run tm (frames (t # ts)) m) = snd (Modal_run tm (frames ts) ?m)"
    by (simp add: frames_simps step Let_def)
  from acc have tm: "time (anim ?e) = t"
    "frameTime (anim ?e) = frameTime (anim (opacity m))
        + (t - (if time (anim (opacity m)) \<noteq> 0 then time (anim (opacity m)) else t))"
    "duration (conf (opacity m)) \<le> frameTime (anim ?e) \<Longrightarrow> finished (anim ?e) \<noteq> 0"
    by (simp_all add: accumulates_def stop_timing_simps)
  from tm(2) Cons.prems(4,5) have ft: "frameTime (anim ?e) = t - t0" by simp
  show ?case
  proof (cases "finished (anim ?e) = 0")
    case False
    then have "\<not> clockRunning (opacity ?m)" by (simp add: stop_timing_simps)
    then have "Modal_run tm (frames ts) ?m = ([], ?m)" by (rule frames_stopped)
    with False show ?thesis unfolding run by simp
  next
    case True
    with tm(3) ft have short: "\<not> duration (conf (opacity m)) \<le> t - t0" by auto
    with Cons.prems(8) have ts: "ts \<noteq> []" by (cases ts) auto
    have "finished (anim (opacity (snd (Modal_run tm (frames ts) ?m)))) \<noteq> 0"
    proof (rule Cons.IH)
      show "on_target ?m" using Cons.prems(1) by (simp add: on_target_def stop_timing_simps)
      show "clockRunning (opacity ?m)" using Cons.prems(2) True by (simp add: stop_timing_simps)
      show "finished (anim (opacity ?m)) = 0" using True by simp
      show "time (anim (opacity ?m)) \<noteq> 0" using tm(1) Cons.prems(6) by simp
      show "frameTime (anim (opacity ?m)) = time (anim (opacity ?m)) - t0" using tm(1) ft by simp
      show "\<forall>t \<in> set ts. t \<noteq> 0" using Cons.prems(6) by simp
      show "ts \<noteq> []" by (rule ts)
      show "duration (conf (opacity ?m)) \<le> last ts - t0"
        using Cons.prems(8) ts by (simp add: stop_timing_simps)
    qed
    then show ?thesis unfolding run .
  qed
qed

lemma started_run_completes:
  assumes "accumulates tm" and "init m" and "isVisible m \<noteq> Some v"
    and "toValue (conf (opacity m)) \<noteq> (if v then 1 else 0)"
    and "t0 \<noteq> 0" and "\<forall>t \<in> set ts. t \<noteq> 0" and "ts \<noteq> []"
    and "duration (conf (opacity m)) \<le> last ts - t0"
  shows "finished (anim (opacity (snd (Modal_run tm ((t0, Render (Some v)) # frames ts) m)))) \<noteq> 0"
proof -
  let ?e = "stop_phase (timing_phase tm t0 (start_run (if v then 1 else 0) (opacity m)))"
  let ?m = "m\<lparr> isVisible := Some v, animationState := (if v then BEGAN else END), opacity := ?e \<rparr>"
  have step: "Modal_step tm (t0, Render (Some v)) m =
      (completion_calls (showCallback m) (hideCallback m) (if v then BEGAN else END) ?e, ?m)"
    using assms(2-4) by (simp add: Modal_step_def Modal_render_starts)
  have run: "snd (Modal_run tm ((t0, Render (Some v)) # frames ts) m)
               = snd (Modal_run tm (frames ts) ?m)"
    by (simp add: step Let_def)
  from assms(1) have tm: "time (anim ?e) = t0" "frameTime (anim ?e) = 0"
    by (simp_all add: accumulates_def stop_timing_simps start_run_simps)
  show ?thesis
  proof (cases "finished (anim ?e) = 0")
    case False
    then have "\<not> clockRunning (opacity ?m)" by (simp add: stop_timing_simps)
    then have "Modal_run tm (frames ts) ?m = ([], ?m)" by (rule frames_stopped)
    with False show ?thesis unfolding run by simp
  next
    case True
    have "finished (anim (opacity (snd (Modal_run tm (frames ts) ?m)))) \<noteq> 0"
    proof (rule frames_complete [OF assms(1), where ?t0.0 = t0])
      show "on_target ?m" by (simp add: on_target_def stop_timing_simps start_run_simps)
      show "clockRunning (opacity ?m)" using True by (simp add: stop_timing_simps start_run_simps)
      show "finished (anim (opacity ?m)) = 0" using True by simp
      show "time (anim (opacity ?m)) \<noteq> 0" using tm(1) assms(5) by simp
      show "frameTime (anim (opacity ?m)) = time (anim (opacity ?m)) - t0" using tm by simp
      show "\<forall>t \<in> set ts. t \<noteq> 0" by (rule assms(6))
      show "ts \<noteq> []" by (rule assms(7))
      show "duration (conf (opacity ?m)) \<le> last ts - t0"
        using assms(8) by (simp add: stop_timing_simps start_run_simps)
    qed
    then show ?thesis unfolding run .
  qed
qed

end
